theory Spec2Isabelle
  imports Main "HOL-Library.Word"
begin

section \<open>The media-controller graph driver \<^verbatim>\<open>topic-mediactl.c\<close>\<close>

text \<open>
  The driver keeps a list of graph entities (one per remote device-tree node), has each one
  bound to a V4L2 sub-device when that sub-device registers, creates the pad-to-pad links
  once all are bound, and starts the sub-devices (power, frame interval, stream) on a write
  to the \<^verbatim>\<open>stream_start\<close> attribute.

  Pointers are addresses (\<open>nat\<close>); a pointer that may be \<^verbatim>\<open>NULL\<close> is an \<open>option\<close>. Reading
  through a \<^verbatim>\<open>NULL\<close> pointer is the result \<open>Inl NullDeref\<close>. Return codes are C \<^verbatim>\<open>int\<close>s,
  only ever compared and passed on, so they are \<open>int\<close>.
\<close>

subsection \<open>Constants of the kernel headers\<close>

definition EIO :: int where "EIO = 5"
definition ENODEV :: int where "ENODEV = 19"
definition EINVAL :: int where "EINVAL = 22"
definition ENOLINK :: int where "ENOLINK = 67"
definition ENOIOCTLCMD :: int where "ENOIOCTLCMD = 515"

definition MEDIA_PAD_FL_SINK :: "32 word" where "MEDIA_PAD_FL_SINK = 1"
definition MEDIA_PAD_FL_SOURCE :: "32 word" where "MEDIA_PAD_FL_SOURCE = 2"
definition MEDIA_LNK_FL_ENABLED :: "32 word" where "MEDIA_LNK_FL_ENABLED = 1"

subsection \<open>Data\<close>

type_synonym fwnode = nat
type_synonym sd_ptr = nat

text \<open>
  Of the flags of a pad (an \<^verbatim>\<open>unsigned long\<close>) the driver tests the sink bit only, which the
  low 32 bits hold.
\<close>

record media_pad =
  pad_index :: nat
  pad_flags :: "32 word"

text \<open>\<^verbatim>\<open>num_pads\<close> of a media entity is the length of its pad array.\<close>

record media_entity =
  me_name :: string
  me_pads :: "media_pad list"

text \<open>
  A sub-device embeds its media entity; \<^verbatim>\<open>&subdev->entity\<close> and \<^verbatim>\<open>subdev\<close> are the same
  address in the model, and \<^verbatim>\<open>media_entity_to_v4l2_subdev\<close> is the identity on it. The
  entity's name is a pointer of its own, apart from the sub-device's name array.
\<close>

record v4l2_subdev =
  sd_name :: string
  sd_fwnode :: fwnode
  sd_entity :: media_entity

type_synonym sd_heap = "sd_ptr \<Rightarrow> v4l2_subdev"

text \<open>\<^verbatim>\<open>struct xvip_graph_entity\<close>; \<open>match_fwnode\<close> is \<^verbatim>\<open>asd.match.fwnode\<close>.\<close>

record xvip_graph_entity =
  match_fwnode :: fwnode
  entity :: "sd_ptr option"
  subdev :: "sd_ptr option"
  streaming :: bool

record media_link =
  lnk_source :: sd_ptr
  lnk_source_pad :: nat
  lnk_sink :: sd_ptr
  lnk_sink_pad :: nat
  lnk_flags :: "32 word"

text \<open>
  \<^verbatim>\<open>struct xvip_composite_device\<close>: \<open>of_node\<close> is \<^verbatim>\<open>dev->of_node\<close> as a firmware node,
  \<open>asd_list\<close> is \<^verbatim>\<open>notifier.asd_list\<close>, \<open>links\<close> are the links of \<^verbatim>\<open>media_dev\<close>, and the three
  flags record the registrations made with the V4L2 and media cores.
\<close>

record xvip_composite_device =
  of_node :: fwnode
  asd_list :: "xvip_graph_entity list"
  is_streaming :: bool
  links :: "media_link list"
  notifier_registered :: bool
  subdev_nodes_registered :: bool
  media_dev_registered :: bool

text \<open>
  The operations of a bound sub-device are calls into another driver. A call is recorded,
  and its return code is a function of the calls issued before it and the call itself.
\<close>

datatype sd_call =
    S_power sd_ptr int
  | S_frame_interval sd_ptr nat nat
  | S_stream sd_ptr int

type_synonym sd_driver = "sd_call list \<Rightarrow> sd_call \<Rightarrow> int"

text \<open>
  The state the module works on: its two statics \<^verbatim>\<open>g_xdev\<close> and \<^verbatim>\<open>indication\<close> (a C
  \<^verbatim>\<open>int\<close>, only counted up and compared with 0: a 32-bit word that wraps), the sub-devices in
  memory, and the calls issued to them so far.
\<close>

record world =
  g_xdev :: xvip_composite_device
  indication :: "32 word"
  subdevs :: sd_heap
  sd_calls :: "sd_call list"

datatype fault = NullDeref

subsection \<open>Starting and stopping one entity\<close>

text \<open>
  Three macros of the kernel headers. \<^verbatim>\<open>dev_dbg\<close> does not evaluate its arguments (the file
  defines no \<^verbatim>\<open>DEBUG\<close>), so the names it is given are not read. \<^verbatim>\<open>media_entity_to_v4l2_subdev\<close>
  takes \<^verbatim>\<open>NULL\<close> to \<^verbatim>\<open>NULL\<close>. \<^verbatim>\<open>v4l2_subdev_call\<close> answers \<open>- ENODEV\<close> for a \<^verbatim>\<open>NULL\<close> sub-device
  without calling anything; otherwise the call is issued and its code returned, \<open>- ENOIOCTLCMD\<close>
  being the code for an operation the sub-device does not have.
\<close>

definition media_entity_to_v4l2_subdev :: "sd_ptr option \<Rightarrow> sd_ptr option" where
  "media_entity_to_v4l2_subdev ent = ent"

definition v4l2_subdev_call ::
  "sd_driver \<Rightarrow> sd_ptr option \<Rightarrow> (sd_ptr \<Rightarrow> sd_call) \<Rightarrow> sd_call list \<Rightarrow> int \<times> sd_call list" where
  "v4l2_subdev_call drv sd f tr =
     (case sd of
        None \<Rightarrow> (- ENODEV, tr)
      | Some p \<Rightarrow> (drv tr (f p), tr @ [f p]))"

definition xvip_graph_entity_set_streaming ::
  "xvip_graph_entity \<Rightarrow> bool \<Rightarrow> bool \<times> xvip_graph_entity" where
  "xvip_graph_entity_set_streaming ent enable = (streaming ent, ent\<lparr>streaming := enable\<rparr>)"

text \<open>The stream-on step that ends the start branch of \<^verbatim>\<open>xvip_entity_start_stop\<close>.\<close>

definition xvip_entity_stream_on ::
  "sd_driver \<Rightarrow> sd_ptr option \<Rightarrow> xvip_graph_entity \<Rightarrow> sd_call list
     \<Rightarrow> int \<times> xvip_graph_entity \<times> sd_call list" where
  "xvip_entity_stream_on drv sd ent tr =
     (let (ret, tr1) = v4l2_subdev_call drv sd (\<lambda>p. S_stream p 1) tr in
      if ret < 0 \<and> ret \<noteq> - ENOIOCTLCMD then
        let (_, tr2) = v4l2_subdev_call drv sd (\<lambda>p. S_power p 0) tr1 in
        (ret, snd (xvip_graph_entity_set_streaming ent False), tr2)
      else (ret, ent, tr1))"

text \<open>
  \<^verbatim>\<open>xvip_entity_start_stop(xdev, entity, on)\<close>. The only read through the sub-device pointer
  that is not inside a macro is \<^verbatim>\<open>strcmp(subdev->name, "IMX274")\<close>, after power-on.
\<close>

definition xvip_entity_start_stop ::
  "sd_driver \<Rightarrow> sd_heap \<Rightarrow> xvip_graph_entity \<Rightarrow> bool \<Rightarrow> sd_call list
     \<Rightarrow> fault + (int \<times> xvip_graph_entity \<times> sd_call list)" where
  "xvip_entity_start_stop drv sds ent0 on tr =
     (let sd = media_entity_to_v4l2_subdev (entity ent0);
          (was_streaming, ent) = xvip_graph_entity_set_streaming ent0 on in
      if on \<and> \<not> was_streaming then
        let (ret, tr1) = v4l2_subdev_call drv sd (\<lambda>p. S_power p 1) tr in
        if ret < 0 \<and> ret \<noteq> - ENOIOCTLCMD then
          Inr (ret, snd (xvip_graph_entity_set_streaming ent False), tr1)
        else
          (case sd of
             None \<Rightarrow> Inl NullDeref
           | Some p \<Rightarrow>
               if sd_name (sds p) = ''IMX274'' then
                 let (ret, tr2) = v4l2_subdev_call drv sd (\<lambda>p. S_frame_interval p 1 60) tr1 in
                 if ret < 0 then
                   Inr (ret, snd (xvip_graph_entity_set_streaming ent False), tr2)
                 else Inr (xvip_entity_stream_on drv sd ent tr2)
               else Inr (xvip_entity_stream_on drv sd ent tr1))
      else if \<not> on \<and> was_streaming then
        let (ret, tr1) = v4l2_subdev_call drv sd (\<lambda>p. S_stream p 0) tr;
            ent1 = (if ret < 0 \<and> ret \<noteq> - ENOIOCTLCMD
                    then snd (xvip_graph_entity_set_streaming ent True) else ent);
            (ret, tr2) = v4l2_subdev_call drv sd (\<lambda>p. S_power p 0) tr1
        in Inr (ret, ent1, tr2)
      else Inr (0, ent, tr))"

subsection \<open>Starting the whole graph\<close>

text \<open>
  The loop of \<^verbatim>\<open>xvip_start_stream\<close> over \<^verbatim>\<open>asd_list\<close>: each entity is started in place, the
  value \<^verbatim>\<open>xvip_entity_start_stop\<close> returns is not looked at.
\<close>

fun xvip_start_stream_loop ::
  "sd_driver \<Rightarrow> sd_heap \<Rightarrow> xvip_graph_entity list \<Rightarrow> sd_call list
     \<Rightarrow> fault + (xvip_graph_entity list \<times> sd_call list)" where
  "xvip_start_stream_loop drv sds [] tr = Inr ([], tr)"
| "xvip_start_stream_loop drv sds (ent # rest) tr =
     (case xvip_entity_start_stop drv sds ent True tr of
        Inl f \<Rightarrow> Inl f
      | Inr (_, ent', tr') \<Rightarrow>
          (case xvip_start_stream_loop drv sds rest tr' of
             Inl f \<Rightarrow> Inl f
           | Inr (rest', tr'') \<Rightarrow> Inr (ent' # rest', tr'')))"

definition xvip_start_stream :: "sd_driver \<Rightarrow> world \<Rightarrow> fault + world" where
  "xvip_start_stream drv w =
     (case xvip_start_stream_loop drv (subdevs w) (asd_list (g_xdev w)) (sd_calls w) of
        Inl f \<Rightarrow> Inl f
      | Inr (ents, tr) \<Rightarrow>
          Inr (w\<lparr>g_xdev := (g_xdev w)\<lparr>asd_list := ents, is_streaming := True\<rparr>,
                 sd_calls := tr\<rparr>))"

text \<open>
  The attribute \<^verbatim>\<open>stream_start\<close>: reading prints the flag with \<^verbatim>\<open>"%d\n"\<close> and returns the
  number of characters, writing starts the graph and returns \<^verbatim>\<open>count\<close>.
\<close>

definition xvip_start_stream_show :: "world \<Rightarrow> string \<times> nat" where
  "xvip_start_stream_show w =
     (let buf = (if is_streaming (g_xdev w) then ''1'' else ''0'') @ [CHR 0x0A]
      in (buf, length buf))"

definition xvip_start_stream_store :: "sd_driver \<Rightarrow> nat \<Rightarrow> world \<Rightarrow> fault + (nat \<times> world)" where
  "xvip_start_stream_store drv count w =
     (case xvip_start_stream drv w of
        Inl f \<Rightarrow> Inl f
      | Inr w' \<Rightarrow> Inr (count, w'))"

subsection \<open>Binding a sub-device\<close>

text \<open>
  The loop of \<^verbatim>\<open>xvip_graph_notify_bound\<close>: the first entity whose firmware node is the
  sub-device's decides; \<open>fw\<close> is \<^verbatim>\<open>subdev->fwnode\<close>.
\<close>

fun xvip_graph_notify_bound_loop ::
  "fwnode \<Rightarrow> sd_ptr \<Rightarrow> xvip_graph_entity list \<Rightarrow> int \<times> xvip_graph_entity list" where
  "xvip_graph_notify_bound_loop fw sd [] = (- EINVAL, [])"
| "xvip_graph_notify_bound_loop fw sd (ent # rest) =
     (if match_fwnode ent \<noteq> fw then
        (let (ret, rest') = xvip_graph_notify_bound_loop fw sd rest in (ret, ent # rest'))
      else if subdev ent \<noteq> None then (- EINVAL, ent # rest)
      else (0, ent\<lparr>entity := Some sd, subdev := Some sd\<rparr> # rest))"

definition xvip_graph_notify_bound :: "sd_ptr \<Rightarrow> world \<Rightarrow> int \<times> world" where
  "xvip_graph_notify_bound sd w =
     (let (ret, ents) =
            xvip_graph_notify_bound_loop (sd_fwnode (subdevs w sd)) sd (asd_list (g_xdev w))
      in (ret, w\<lparr>g_xdev := (g_xdev w)\<lparr>asd_list := ents\<rparr>\<rparr>))"

subsection \<open>The device tree and the cores the driver calls\<close>

record v4l2_fwnode_link =
  local_node :: fwnode
  local_port :: nat
  remote_node :: fwnode
  remote_port :: nat

text \<open>
  An endpoint of the device tree, with what the firmware-node functions answer for it:
  \<open>ep_remote_parent\<close> is \<^verbatim>\<open>fwnode_graph_get_remote_port_parent(ep)\<close>, \<open>ep_parse_ret\<close> and
  \<open>ep_link\<close> are the return code and the link of \<^verbatim>\<open>v4l2_fwnode_parse_link(ep, &link)\<close>.
\<close>

record endpoint =
  ep_remote_parent :: "fwnode option"
  ep_parse_ret :: int
  ep_link :: v4l2_fwnode_link

text \<open>
  What lies outside the driver: \<open>endpoints\<close> lists the endpoints of a node in the order
  \<^verbatim>\<open>fwnode_graph_get_next_endpoint\<close> walks them; \<open>add_subdev_err\<close> is the error pointer
  \<^verbatim>\<open>v4l2_async_notifier_add_fwnode_subdev\<close> returns, if any; the others are return codes.
\<close>

record platform =
  endpoints :: "fwnode \<Rightarrow> endpoint list"
  add_subdev_err :: "xvip_graph_entity list \<Rightarrow> fwnode \<Rightarrow> int option"
  notifier_register_ret :: int
  pad_link_ret :: "media_link list \<Rightarrow> media_link \<Rightarrow> int"
  register_subdev_nodes_ret :: int
  media_device_register_ret :: int

definition xvip_graph_find_entity ::
  "xvip_composite_device \<Rightarrow> fwnode \<Rightarrow> xvip_graph_entity option" where
  "xvip_graph_find_entity xdev fw = find (\<lambda>ent. match_fwnode ent = fw) (asd_list xdev)"

definition v4l2_async_notifier_cleanup :: "xvip_composite_device \<Rightarrow> xvip_composite_device" where
  "v4l2_async_notifier_cleanup xdev = xdev\<lparr>asd_list := []\<rparr>"

definition v4l2_async_notifier_unregister :: "xvip_composite_device \<Rightarrow> xvip_composite_device" where
  "v4l2_async_notifier_unregister xdev = xdev\<lparr>notifier_registered := False\<rparr>"

text \<open>The new entity is zeroed memory with its firmware node set, added at the tail.\<close>

definition v4l2_async_notifier_add_fwnode_subdev ::
  "platform \<Rightarrow> xvip_composite_device \<Rightarrow> fwnode \<Rightarrow> int + xvip_composite_device" where
  "v4l2_async_notifier_add_fwnode_subdev p xdev remote =
     (case add_subdev_err p (asd_list xdev) remote of
        Some err \<Rightarrow> Inl err
      | None \<Rightarrow>
          Inr (xdev\<lparr>asd_list := asd_list xdev @
                 [\<lparr>match_fwnode = remote, entity = None, subdev = None, streaming = False\<rparr>]\<rparr>))"

definition v4l2_async_notifier_register ::
  "platform \<Rightarrow> xvip_composite_device \<Rightarrow> int \<times> xvip_composite_device" where
  "v4l2_async_notifier_register p xdev =
     (let ret = notifier_register_ret p
      in (ret, if ret < 0 then xdev else xdev\<lparr>notifier_registered := True\<rparr>))"

subsection \<open>Parsing the graph\<close>

text \<open>
  The loop of \<^verbatim>\<open>xvip_graph_parse_one\<close> over the endpoints of one node; the two operands
  of its \<^verbatim>\<open>||\<close> are tested one after the other.
\<close>

fun xvip_graph_parse_one_loop ::
  "platform \<Rightarrow> xvip_composite_device \<Rightarrow> endpoint list \<Rightarrow> int \<times> xvip_composite_device" where
  "xvip_graph_parse_one_loop p xdev [] = (0, xdev)"
| "xvip_graph_parse_one_loop p xdev (ep # eps) =
     (case ep_remote_parent ep of
        None \<Rightarrow> (- EINVAL, v4l2_async_notifier_cleanup xdev)
      | Some remote \<Rightarrow>
          if remote = of_node xdev then xvip_graph_parse_one_loop p xdev eps
          else if xvip_graph_find_entity xdev remote \<noteq> None then
            xvip_graph_parse_one_loop p xdev eps
          else
            (case v4l2_async_notifier_add_fwnode_subdev p xdev remote of
               Inl err \<Rightarrow> (err, v4l2_async_notifier_cleanup xdev)
             | Inr xdev' \<Rightarrow> xvip_graph_parse_one_loop p xdev' eps))"

definition xvip_graph_parse_one ::
  "platform \<Rightarrow> xvip_composite_device \<Rightarrow> fwnode \<Rightarrow> int \<times> xvip_composite_device" where
  "xvip_graph_parse_one p xdev fw = xvip_graph_parse_one_loop p xdev (endpoints p fw)"

text \<open>
  The loop of \<^verbatim>\<open>xvip_graph_parse\<close> walks \<^verbatim>\<open>asd_list\<close> while the calls it makes add to its
  tail; \<open>i\<close> is the position reached and \<open>ret\<close> the value of the variable \<^verbatim>\<open>ret\<close>. Nothing
  bounds the nodes a device tree given as a function can reach, so the loop is partial.
\<close>

partial_function (option) xvip_graph_parse_loop ::
  "platform \<Rightarrow> nat \<Rightarrow> int \<Rightarrow> xvip_composite_device \<Rightarrow> (int \<times> xvip_composite_device) option" where
  "xvip_graph_parse_loop p i ret xdev =
     (if i < length (asd_list xdev) then
        (case xvip_graph_parse_one p xdev (match_fwnode (asd_list xdev ! i)) of
           (ret', xdev') \<Rightarrow>
             if ret' < 0 then Some (ret', v4l2_async_notifier_cleanup xdev')
             else xvip_graph_parse_loop p (i + 1) ret' xdev')
      else Some (ret, xdev))"

declare xvip_graph_parse_loop.simps [code]

definition xvip_graph_parse ::
  "platform \<Rightarrow> xvip_composite_device \<Rightarrow> (int \<times> xvip_composite_device) option" where
  "xvip_graph_parse p xdev =
     (case xvip_graph_parse_one p xdev (of_node xdev) of
        (ret, xdev') \<Rightarrow>
          if ret < 0 then Some (0, xdev')
          else xvip_graph_parse_loop p 0 ret xdev')"

definition xvip_graph_cleanup :: "xvip_composite_device \<Rightarrow> xvip_composite_device" where
  "xvip_graph_cleanup xdev = v4l2_async_notifier_cleanup (v4l2_async_notifier_unregister xdev)"

text \<open>The label \<^verbatim>\<open>done\<close> of \<^verbatim>\<open>xvip_graph_init\<close>.\<close>

definition xvip_graph_init_done ::
  "int \<Rightarrow> xvip_composite_device \<Rightarrow> int \<times> xvip_composite_device" where
  "xvip_graph_init_done ret xdev = (ret, if ret < 0 then xvip_graph_cleanup xdev else xdev)"

definition xvip_graph_init ::
  "platform \<Rightarrow> xvip_composite_device \<Rightarrow> (int \<times> xvip_composite_device) option" where
  "xvip_graph_init p xdev =
     (case xvip_graph_parse p xdev of
        None \<Rightarrow> None
      | Some (ret, xdev1) \<Rightarrow>
          if ret < 0 then Some (xvip_graph_init_done ret xdev1)
          else if asd_list xdev1 = [] then Some (xvip_graph_init_done ret xdev1)
          else
            (case v4l2_async_notifier_register p xdev1 of
               (ret', xdev2) \<Rightarrow>
                 if ret' < 0 then Some (xvip_graph_init_done ret' xdev2)
                 else Some (xvip_graph_init_done 0 xdev2)))"

subsection \<open>Creating the links\<close>

unbundle bit_operations_syntax

definition media_create_pad_link ::
  "platform \<Rightarrow> media_link \<Rightarrow> xvip_composite_device \<Rightarrow> int \<times> xvip_composite_device" where
  "media_create_pad_link p l xdev =
     (let ret = pad_link_ret p (links xdev) l
      in (ret, if ret < 0 then xdev else xdev\<lparr>links := links xdev @ [l]\<rparr>))"

text \<open>
  The \<^verbatim>\<open>while (1)\<close> loop of \<^verbatim>\<open>xvip_graph_build_one\<close> over the endpoints of the entity's node;
  \<open>local\<close> is the entity's media entity and \<open>ret\<close> the value of the variable \<^verbatim>\<open>ret\<close>, which
  the function returns when the endpoints are exhausted.
\<close>

fun xvip_graph_build_one_loop ::
  "platform \<Rightarrow> sd_heap \<Rightarrow> sd_ptr \<Rightarrow> int \<Rightarrow> xvip_composite_device \<Rightarrow> endpoint list
     \<Rightarrow> fault + (int \<times> xvip_composite_device)" where
  "xvip_graph_build_one_loop p sds local ret xdev [] = Inr (ret, xdev)"
| "xvip_graph_build_one_loop p sds local ret xdev (ep # eps) =
     (if ep_parse_ret ep < 0 then
        xvip_graph_build_one_loop p sds local (ep_parse_ret ep) xdev eps
      else
        let link = ep_link ep; local_pads = me_pads (sd_entity (sds local)) in
        if local_port link \<ge> length local_pads then Inr (- EINVAL, xdev)
        else
          let local_pad = local_pads ! local_port link in
          if pad_flags local_pad AND MEDIA_PAD_FL_SINK \<noteq> 0 then
            xvip_graph_build_one_loop p sds local (ep_parse_ret ep) xdev eps
          else if remote_node link = of_node xdev then
            xvip_graph_build_one_loop p sds local (ep_parse_ret ep) xdev eps
          else
            (case xvip_graph_find_entity xdev (remote_node link) of
               None \<Rightarrow> Inr (- ENODEV, xdev)
             | Some ent \<Rightarrow>
                 (case entity ent of
                    None \<Rightarrow> Inl NullDeref
                  | Some remote \<Rightarrow>
                      let remote_pads = me_pads (sd_entity (sds remote)) in
                      if remote_port link \<ge> length remote_pads then Inr (- EINVAL, xdev)
                      else
                        let remote_pad = remote_pads ! remote_port link;
                            (ret', xdev') =
                              media_create_pad_link p
                                \<lparr>lnk_source = local, lnk_source_pad = pad_index local_pad,
                                 lnk_sink = remote, lnk_sink_pad = pad_index remote_pad,
                                 lnk_flags = MEDIA_LNK_FL_ENABLED\<rparr> xdev
                        in if ret' < 0 then Inr (ret', xdev')
                           else xvip_graph_build_one_loop p sds local ret' xdev' eps)))"

text \<open>
  The renaming at the head of \<^verbatim>\<open>xvip_graph_build_one\<close>: \<^verbatim>\<open>local->name\<close> is set to a
  literal and the static \<^verbatim>\<open>indication\<close> counted up.
\<close>

definition xvip_graph_build_one_rename :: "sd_ptr \<Rightarrow> world \<Rightarrow> world" where
  "xvip_graph_build_one_rename local w =
     (let sd = subdevs w local in
      if me_name (sd_entity sd) = ''IMX274'' then
        w\<lparr>subdevs := (subdevs w)
             (local := sd\<lparr>sd_entity := (sd_entity sd)
                \<lparr>me_name := (if indication w = 0 then ''IMX274_0'' else ''IMX274_1'')\<rparr>\<rparr>),
          indication := indication w + 1\<rparr>
      else w)"

text \<open>
  \<^verbatim>\<open>xvip_graph_build_one(xdev, entity)\<close>, always called with \<^verbatim>\<open>g_xdev\<close>. It reads
  \<^verbatim>\<open>entity->entity->name\<close> first, so an entity that is not bound is a \<^verbatim>\<open>NULL\<close> dereference.
\<close>

definition xvip_graph_build_one ::
  "platform \<Rightarrow> xvip_graph_entity \<Rightarrow> world \<Rightarrow> fault + (int \<times> world)" where
  "xvip_graph_build_one p ent w =
     (case entity ent of
        None \<Rightarrow> Inl NullDeref
      | Some local \<Rightarrow>
          let w1 = xvip_graph_build_one_rename local w in
          (case xvip_graph_build_one_loop p (subdevs w1) local 0 (g_xdev w1)
                  (endpoints p (match_fwnode ent)) of
             Inl f \<Rightarrow> Inl f
           | Inr (ret, xdev') \<Rightarrow> Inr (ret, w1\<lparr>g_xdev := xdev'\<rparr>)))"

text \<open>
  The loop of \<^verbatim>\<open>xvip_graph_notify_complete\<close>: \<open>Some ret\<close> is the \<^verbatim>\<open>return ret\<close> inside the
  loop, \<open>None\<close> the loop running to its end.
\<close>

fun xvip_graph_notify_complete_loop ::
  "platform \<Rightarrow> xvip_graph_entity list \<Rightarrow> world \<Rightarrow> fault + (int option \<times> world)" where
  "xvip_graph_notify_complete_loop p [] w = Inr (None, w)"
| "xvip_graph_notify_complete_loop p (ent # rest) w =
     (case xvip_graph_build_one p ent w of
        Inl f \<Rightarrow> Inl f
      | Inr (ret, w') \<Rightarrow>
          if ret < 0 then Inr (Some ret, w')
          else xvip_graph_notify_complete_loop p rest w')"

definition xvip_graph_notify_complete :: "platform \<Rightarrow> world \<Rightarrow> fault + (int \<times> world)" where
  "xvip_graph_notify_complete p w =
     (case xvip_graph_notify_complete_loop p (asd_list (g_xdev w)) w of
        Inl f \<Rightarrow> Inl f
      | Inr (Some ret, w') \<Rightarrow> Inr (ret, w')
      | Inr (None, w') \<Rightarrow>
          let xdev1 = (g_xdev w')\<lparr>subdev_nodes_registered := \<not> register_subdev_nodes_ret p < 0\<rparr>;
              ret = media_device_register_ret p
          in Inr (ret, w'\<lparr>g_xdev := xdev1\<lparr>media_dev_registered := \<not> ret < 0\<rparr>\<rparr>))"

subsection \<open>Notions used in the statements\<close>

text \<open>The name of the media entity at an address, \<^verbatim>\<open>entity->name\<close>.\<close>

definition entity_name :: "world \<Rightarrow> sd_ptr \<Rightarrow> string" where
  "entity_name w a = me_name (sd_entity (subdevs w a))"


subsection \<open>A board: two IMX274 sensors feeding a receiver\<close>

text \<open>
  The composite device is node 10. Its endpoint leads to the receiver (node 13, sub-device 3,
  two sink pads and a source pad towards the composite device), which the sensors (nodes 11
  and 12, sub-devices 1 and 2, one source pad each) feed. As \<^verbatim>\<open>v4l2_subdev_init\<close> leaves it,
  the name of a media entity is the name of its sub-device.
\<close>

definition board_subdev :: "string \<Rightarrow> fwnode \<Rightarrow> media_pad list \<Rightarrow> v4l2_subdev" where
  "board_subdev name fw pads =
     \<lparr>sd_name = name, sd_fwnode = fw, sd_entity = \<lparr>me_name = name, me_pads = pads\<rparr>\<rparr>"

definition board_subdevs :: sd_heap where
  "board_subdevs sd =
     (if sd = 1 then
        board_subdev ''IMX274'' 11 [\<lparr>pad_index = 0, pad_flags = MEDIA_PAD_FL_SOURCE\<rparr>]
      else if sd = 2 then
        board_subdev ''IMX274'' 12 [\<lparr>pad_index = 0, pad_flags = MEDIA_PAD_FL_SOURCE\<rparr>]
      else
        board_subdev ''csi2rx'' 13
          [\<lparr>pad_index = 0, pad_flags = MEDIA_PAD_FL_SINK\<rparr>,
           \<lparr>pad_index = 1, pad_flags = MEDIA_PAD_FL_SINK\<rparr>,
           \<lparr>pad_index = 2, pad_flags = MEDIA_PAD_FL_SOURCE\<rparr>])"

text \<open>A second board, whose two sensors are of another type and share its name.\<close>

definition twin_subdevs :: sd_heap where
  "twin_subdevs sd =
     board_subdev ''OV5640'' (10 + sd) [\<lparr>pad_index = 0, pad_flags = MEDIA_PAD_FL_SOURCE\<rparr>]"

definition bound_entity :: "fwnode \<Rightarrow> sd_ptr \<Rightarrow> bool \<Rightarrow> xvip_graph_entity" where
  "bound_entity fw sd on =
     \<lparr>match_fwnode = fw, entity = Some sd, subdev = Some sd, streaming = on\<rparr>"

definition unbound_entity :: "fwnode \<Rightarrow> xvip_graph_entity" where
  "unbound_entity fw = \<lparr>match_fwnode = fw, entity = None, subdev = None, streaming = False\<rparr>"

definition board_xdev :: "xvip_graph_entity list \<Rightarrow> xvip_composite_device" where
  "board_xdev ents =
     \<lparr>of_node = 10, asd_list = ents, is_streaming = False, links = [],
      notifier_registered = False, subdev_nodes_registered = False,
      media_dev_registered = False\<rparr>"

definition board_world :: "sd_heap \<Rightarrow> xvip_graph_entity list \<Rightarrow> world" where
  "board_world sds ents =
     \<lparr>g_xdev = board_xdev ents, indication = 0, subdevs = sds, sd_calls = []\<rparr>"

text \<open>A driver that answers \<open>err\<close> to the call \<open>c\<close> and 0 to every other call.\<close>

definition failing_call :: "sd_call \<Rightarrow> int \<Rightarrow> sd_driver" where
  "failing_call c err = (\<lambda>tr c'. if c' = c then err else 0)"

definition board_endpoint :: "fwnode \<Rightarrow> nat \<Rightarrow> fwnode \<Rightarrow> nat \<Rightarrow> endpoint" where
  "board_endpoint fw port rfw rport =
     \<lparr>ep_remote_parent = Some rfw, ep_parse_ret = 0,
      ep_link = \<lparr>local_node = fw, local_port = port, remote_node = rfw, remote_port = rport\<rparr>\<rparr>"

text \<open>An endpoint with nothing at its remote end.\<close>

definition dangling_endpoint :: "fwnode \<Rightarrow> nat \<Rightarrow> endpoint" where
  "dangling_endpoint fw port =
     \<lparr>ep_remote_parent = None, ep_parse_ret = - ENOLINK,
      ep_link = \<lparr>local_node = fw, local_port = port, remote_node = 0, remote_port = 0\<rparr>\<rparr>"

definition board_endpoints :: "fwnode \<Rightarrow> endpoint list" where
  "board_endpoints fw =
     (if fw = 10 then [board_endpoint 10 0 13 2]
      else if fw = 11 then [board_endpoint 11 0 13 0]
      else if fw = 12 then [board_endpoint 12 0 13 1]
      else if fw = 13 then
        [board_endpoint 13 0 11 0, board_endpoint 13 1 12 0, board_endpoint 13 2 10 0]
      else [])"

definition board_platform :: "(fwnode \<Rightarrow> endpoint list) \<Rightarrow> platform" where
  "board_platform eps =
     \<lparr>endpoints = eps, add_subdev_err = (\<lambda>ents fw. None), notifier_register_ret = 0,
      pad_link_ret = (\<lambda>ls l. 0), register_subdev_nodes_ret = 0,
      media_device_register_ret = 0\<rparr>"

text \<open>The board with a second endpoint on the composite device that leads nowhere.\<close>

definition broken_root_endpoints :: "fwnode \<Rightarrow> endpoint list" where
  "broken_root_endpoints fw =
     (if fw = 10 then [board_endpoint 10 0 13 2, dangling_endpoint 10 1]
      else board_endpoints fw)"

text \<open>The board with such an endpoint on the first sensor instead.\<close>

definition broken_sensor_endpoints :: "fwnode \<Rightarrow> endpoint list" where
  "broken_sensor_endpoints fw =
     (if fw = 11 then [board_endpoint 11 0 13 0, dangling_endpoint 11 1]
      else board_endpoints fw)"

section \<open>Properties\<close>

lemmas errno_defs = EIO_def ENODEV_def EINVAL_def ENOLINK_def ENOIOCTLCMD_def

lemmas board_defs = board_subdev_def board_subdevs_def twin_subdevs_def bound_entity_def
  unbound_entity_def board_xdev_def board_world_def failing_call_def board_endpoint_def
  dangling_endpoint_def board_endpoints_def board_platform_def broken_root_endpoints_def
  broken_sensor_endpoints_def MEDIA_PAD_FL_SOURCE_def MEDIA_PAD_FL_SINK_def
  MEDIA_LNK_FL_ENABLED_def

lemmas start_stop_defs = xvip_entity_start_stop_def xvip_entity_stream_on_def
  xvip_graph_entity_set_streaming_def v4l2_subdev_call_def media_entity_to_v4l2_subdev_def
  Let_def

lemmas start_stream_defs = xvip_start_stream_def xvip_start_stream_store_def
  xvip_start_stream_show_def

lemmas parse_defs = xvip_graph_parse_one_def xvip_graph_find_entity_def
  v4l2_async_notifier_cleanup_def v4l2_async_notifier_unregister_def
  v4l2_async_notifier_add_fwnode_subdev_def v4l2_async_notifier_register_def
  xvip_graph_parse_def xvip_graph_cleanup_def xvip_graph_init_done_def xvip_graph_init_def

lemmas build_defs = xvip_graph_build_one_def xvip_graph_build_one_rename_def
  media_create_pad_link_def xvip_graph_notify_complete_def xvip_graph_find_entity_def

subsection \<open>One entity\<close>

lemma set_streaming_same: "streaming ent = b \<Longrightarrow> ent\<lparr>streaming := b\<rparr> = ent"
  by (cases ent) simp

text \<open>
  C4: starting an entity that is already streaming returns 0, issues no call to any
  sub-device and leaves the entity as it was; so does stopping an entity that is not
  streaming. This holds for every entity, bound or not.
\<close>

theorem start_stop_idempotent:
  "(streaming ent \<longrightarrow> xvip_entity_start_stop drv sds ent True tr = Inr (0, ent, tr)) \<and>
   (\<not> streaming ent \<longrightarrow> xvip_entity_start_stop drv sds ent False tr = Inr (0, ent, tr))"
  by (simp add: xvip_entity_start_stop_def xvip_graph_entity_set_streaming_def
      set_streaming_same Let_def)

theorem start_stop_idempotent_witness:
  "streaming (bound_entity 11 1 True) \<and>
   xvip_entity_start_stop (\<lambda>tr c. - EIO) board_subdevs (bound_entity 11 1 True) True [] =
     Inr (0, bound_entity 11 1 True, []) \<and>
   \<not> streaming (bound_entity 13 3 False) \<and>
   xvip_entity_start_stop (\<lambda>tr c. - EIO) board_subdevs (bound_entity 13 3 False) False [] =
     Inr (0, bound_entity 13 3 False, []) \<and>
   \<not> streaming (unbound_entity 12) \<and>
   xvip_entity_start_stop (\<lambda>tr c. - EIO) board_subdevs (unbound_entity 12) False [] =
     Inr (0, unbound_entity 12, [])"
proof -
  have s1: "streaming (bound_entity 11 1 True)" and s3: "\<not> streaming (bound_entity 13 3 False)"
    by (simp_all add: bound_entity_def)
  have s2: "\<not> streaming (unbound_entity 12)"
    by (simp add: unbound_entity_def)
  show ?thesis
    using s1 s2 s3
      start_stop_idempotent [of "bound_entity 11 1 True" "\<lambda>tr c. - EIO" board_subdevs "[]"]
      start_stop_idempotent [of "bound_entity 13 3 False" "\<lambda>tr c. - EIO" board_subdevs "[]"]
      start_stop_idempotent [of "unbound_entity 12" "\<lambda>tr c. - EIO" board_subdevs "[]"]
    by simp
qed

text \<open>
  C5: an entity that is bound and not streaming is started, power-on does not fail hard,
  the sub-device is not an IMX274 (no frame interval is set) and stream-on fails hard with
  \<open>err\<close>. Then the entity is left not streaming, the calls issued are power-on, stream-on and
  one power-off, in this order, and \<open>err\<close> is returned.
\<close>

theorem stream_on_failure_reverts_power:
  assumes bound: "entity ent = Some sd"
    and idle: "\<not> streaming ent"
    and no_override: "sd_name (sds sd) \<noteq> ''IMX274''"
    and power_ok: "\<not> (drv tr (S_power sd 1) < 0 \<and> drv tr (S_power sd 1) \<noteq> - ENOIOCTLCMD)"
    and stream_err: "drv (tr @ [S_power sd 1]) (S_stream sd 1) = err"
    and hard: "err < 0" "err \<noteq> - ENOIOCTLCMD"
  shows "xvip_entity_start_stop drv sds ent True tr =
           Inr (err, ent\<lparr>streaming := False\<rparr>,
                tr @ [S_power sd 1, S_stream sd 1, S_power sd 0])"
  using assms
  by (simp add: start_stop_defs Let_def)

theorem stream_on_failure_reverts_power_witness:
  "xvip_entity_start_stop (failing_call (S_stream 3 1) (- EIO)) board_subdevs
     (bound_entity 13 3 False) True [] =
   Inr (- EIO, (bound_entity 13 3 False)\<lparr>streaming := False\<rparr>,
        [S_power 3 1, S_stream 3 1, S_power 3 0])"
proof -
  let ?drv = "failing_call (S_stream 3 1) (- EIO)"
  have bound: "entity (bound_entity 13 3 False) = Some 3"
    and idle: "\<not> streaming (bound_entity 13 3 False)"
    by (simp_all add: bound_entity_def)
  have no_override: "sd_name (board_subdevs 3) \<noteq> ''IMX274''"
    by (simp add: board_subdevs_def board_subdev_def)
  have power_ok: "\<not> (?drv [] (S_power 3 1) < 0 \<and> ?drv [] (S_power 3 1) \<noteq> - ENOIOCTLCMD)"
    by (simp add: failing_call_def)
  have stream_err: "?drv ([] @ [S_power 3 1]) (S_stream 3 1) = - EIO"
    by (simp add: failing_call_def)
  have hard: "- EIO < 0" "- EIO \<noteq> - ENOIOCTLCMD"
    by (simp_all add: errno_defs)
  show ?thesis
    using stream_on_failure_reverts_power
      [where drv = ?drv and sds = board_subdevs and tr = "[]" and err = "- EIO",
        OF bound idle no_override power_ok stream_err hard]
    by simp
qed

text \<open>
  C9: an entity that is bound and not streaming is started, power-on does not fail hard,
  the sub-device is an IMX274 and setting the frame interval fails with \<open>err\<close>. Then the
  entity is left not streaming, \<open>err\<close> is returned, and the calls issued are power-on and
  the frame interval: no power-off, the sub-device stays powered.
\<close>

theorem frame_interval_failure_leaves_power_on:
  assumes bound: "entity ent = Some sd"
    and idle: "\<not> streaming ent"
    and override: "sd_name (sds sd) = ''IMX274''"
    and power_ok: "\<not> (drv tr (S_power sd 1) < 0 \<and> drv tr (S_power sd 1) \<noteq> - ENOIOCTLCMD)"
    and ival_err: "drv (tr @ [S_power sd 1]) (S_frame_interval sd 1 60) = err"
    and neg: "err < 0"
  shows "xvip_entity_start_stop drv sds ent True tr =
           Inr (err, ent\<lparr>streaming := False\<rparr>, tr @ [S_power sd 1, S_frame_interval sd 1 60])"
  using assms
  by (simp add: start_stop_defs Let_def)

theorem frame_interval_failure_leaves_power_on_witness:
  "xvip_entity_start_stop (failing_call (S_frame_interval 1 1 60) (- EINVAL)) board_subdevs
     (bound_entity 11 1 False) True [] =
   Inr (- EINVAL, (bound_entity 11 1 False)\<lparr>streaming := False\<rparr>,
        [S_power 1 1, S_frame_interval 1 1 60])"
proof -
  let ?drv = "failing_call (S_frame_interval 1 1 60) (- EINVAL)"
  have bound: "entity (bound_entity 11 1 False) = Some 1"
    and idle: "\<not> streaming (bound_entity 11 1 False)"
    by (simp_all add: bound_entity_def)
  have override: "sd_name (board_subdevs 1) = ''IMX274''"
    by (simp add: board_subdevs_def board_subdev_def)
  have power_ok: "\<not> (?drv [] (S_power 1 1) < 0 \<and> ?drv [] (S_power 1 1) \<noteq> - ENOIOCTLCMD)"
    by (simp add: failing_call_def)
  have ival_err: "?drv ([] @ [S_power 1 1]) (S_frame_interval 1 1 60) = - EINVAL"
    by (simp add: failing_call_def)
  have neg: "- EINVAL < 0"
    by (simp add: errno_defs)
  show ?thesis
    using frame_interval_failure_leaves_power_on
      [where drv = ?drv and sds = board_subdevs and tr = "[]" and err = "- EINVAL",
        OF bound idle override power_ok ival_err neg]
    by simp
qed

text \<open>
  Stopping a streaming entity whose stream-off fails hard: the flag is set back, and the
  function goes on to power the sub-device off and returns what that call returns.
\<close>

lemma stream_off_failure_goes_on:
  assumes bound: "entity ent = Some sd"
    and on: "streaming ent"
    and stream_err: "drv tr (S_stream sd 0) = err"
    and hard: "err < 0" "err \<noteq> - ENOIOCTLCMD"
  shows "xvip_entity_start_stop drv sds ent False tr =
           Inr (drv (tr @ [S_stream sd 0]) (S_power sd 0), ent,
                tr @ [S_stream sd 0, S_power sd 0])"
  using assms
  by (simp add: start_stop_defs set_streaming_same)

text \<open>
  C2: stopping a streaming entity whose stream-off fails hard should leave it streaming,
  issue no power-off and return the stream-off error. On the receiver of the board, with
  stream-off answering \<open>- EIO\<close> and power-off answering 0, the entity is left streaming, but
  power-off is issued after the failed stream-off and the value returned is 0.
\<close>

theorem stream_off_failure_powers_off:
  "xvip_entity_start_stop (failing_call (S_stream 3 0) (- EIO)) board_subdevs
     (bound_entity 13 3 True) False [] =
   Inr (0, bound_entity 13 3 True, [S_stream 3 0, S_power 3 0])"
  by (simp add: start_stop_defs board_defs errno_defs)

subsection \<open>The whole graph\<close>

text \<open>
  Starting an entity that is not bound and not streaming: the power-on is answered \<open>- ENODEV\<close>
  by the macro, no call is issued, and the flag is set back.
\<close>

lemma start_stop_unbound:
  assumes "entity ent = None" and "\<not> streaming ent"
  shows "xvip_entity_start_stop drv sds ent True tr = Inr (- ENODEV, ent, tr)"
  using assms
  by (simp add: start_stop_defs errno_defs set_streaming_same)

text \<open>The read of the sub-device's name is never reached with a \<^verbatim>\<open>NULL\<close> sub-device.\<close>

lemma start_stop_total:
  "\<exists>ret ent' tr'. xvip_entity_start_stop drv sds ent on tr = Inr (ret, ent', tr')"
  by (cases "entity ent") (simp_all add: start_stop_defs errno_defs Let_def)

lemma start_stop_powers_on:
  assumes "entity ent = Some p" and "\<not> streaming ent"
    and "xvip_entity_start_stop drv sds ent True tr = Inr (ret, ent', tr')"
  shows "\<exists>more. tr' = tr @ S_power p 1 # more"
  using assms
  by (auto simp: start_stop_defs Let_def split: if_splits)

lemma start_stream_loop_in_order:
  "\<exists>ents' trs.
     xvip_start_stream_loop drv sds ents tr = Inr (ents', trs ! length ents) \<and>
     length ents' = length ents \<and> length trs = Suc (length ents) \<and> trs ! 0 = tr \<and>
     (\<forall>i < length ents. \<exists>ret.
        xvip_entity_start_stop drv sds (ents ! i) True (trs ! i) =
          Inr (ret, ents' ! i, trs ! Suc i))"
proof (induction ents arbitrary: tr)
  case Nil
  have "xvip_start_stream_loop drv sds [] tr = Inr ([], [tr] ! length ([]::xvip_graph_entity list))"
    by simp
  then show ?case by (intro exI [of _ "[]"] exI [of _ "[tr]"]) simp
next
  case (Cons ent rest)
  from start_stop_total [of drv sds ent True tr]
  obtain ret ent' tr1 where
    step: "xvip_entity_start_stop drv sds ent True tr = Inr (ret, ent', tr1)"
    by blast
  from Cons.IH [of tr1]
  obtain rest' trs' where
    tail: "xvip_start_stream_loop drv sds rest tr1 = Inr (rest', trs' ! length rest)"
    and len: "length rest' = length rest" "length trs' = Suc (length rest)"
    and first: "trs' ! 0 = tr1"
    and walk: "\<forall>i < length rest. \<exists>ret.
                 xvip_entity_start_stop drv sds (rest ! i) True (trs' ! i) =
                   Inr (ret, rest' ! i, trs' ! Suc i)"
    by blast
  have run: "xvip_start_stream_loop drv sds (ent # rest) tr =
               Inr (ent' # rest', (tr # trs') ! length (ent # rest))"
    using step tail by simp
  have all: "\<forall>i < length (ent # rest). \<exists>ret.
               xvip_entity_start_stop drv sds ((ent # rest) ! i) True ((tr # trs') ! i) =
                 Inr (ret, (ent' # rest') ! i, (tr # trs') ! Suc i)"
  proof (intro allI impI)
    fix i
    assume i: "i < length (ent # rest)"
    show "\<exists>ret. xvip_entity_start_stop drv sds ((ent # rest) ! i) True ((tr # trs') ! i) =
                  Inr (ret, (ent' # rest') ! i, (tr # trs') ! Suc i)"
    proof (cases i)
      case 0
      with step first show ?thesis by simp
    next
      case (Suc j)
      with i walk show ?thesis by simp
    qed
  qed
  from run len all show ?case
    by (intro exI [of _ "ent' # rest'"] exI [of _ "tr # trs'"]) simp
qed

text \<open>
  C1, as stated: starting the whole graph should stop at the first entity whose start
  fails, never attempt the entities after it and return that entity's error. On the board,
  with the stream-on of the second entity (sub-device 1) answering \<open>- EIO\<close>, that entity is
  powered off again and left not streaming, and the loop goes on: the third entity
  (sub-device 2) is powered, configured and set streaming. The function returns no status.
\<close>

theorem start_stream_continues_past_failure:
  "xvip_start_stream (failing_call (S_stream 1 1) (- EIO))
     (board_world board_subdevs
        [bound_entity 13 3 False, bound_entity 11 1 False, bound_entity 12 2 False]) =
   Inr \<lparr>g_xdev =
          (board_xdev [bound_entity 13 3 True, bound_entity 11 1 False, bound_entity 12 2 True])
            \<lparr>is_streaming := True\<rparr>,
        indication = 0, subdevs = board_subdevs,
        sd_calls =
          [S_power 3 1, S_stream 3 1,
           S_power 1 1, S_frame_interval 1 1 60, S_stream 1 1, S_power 1 0,
           S_power 2 1, S_frame_interval 2 1 60, S_stream 2 1]\<rparr>"
  by (simp add: start_stop_defs start_stream_defs board_defs errno_defs)

text \<open>
  C1, amended: starting the whole graph starts every entity of the list once, in the order
  of the list, and looks at no result. For any list, any sub-devices and any answers, it
  runs to the end and returns no status: there are call histories \<open>trs\<close>, one before each
  entity and one after the last, beginning with the calls issued so far, such that the
  \<open>i\<close>-th entity is started on the history the entities before it have left, whatever they
  returned, its outcome is the \<open>i\<close>-th entity of the new list, and the history it leaves is
  the next one; the last history is the one the device ends with. An entity that is bound
  and was not streaming has its power-on issued as the first call of its turn, also when an
  entity before it has failed.
\<close>

theorem start_stream_walks_list_in_order:
  "\<exists>ents' trs.
     xvip_start_stream drv w =
       Inr (w\<lparr>g_xdev := (g_xdev w)\<lparr>asd_list := ents', is_streaming := True\<rparr>,
              sd_calls := trs ! length (asd_list (g_xdev w))\<rparr>) \<and>
     length ents' = length (asd_list (g_xdev w)) \<and>
     length trs = Suc (length (asd_list (g_xdev w))) \<and>
     trs ! 0 = sd_calls w \<and>
     (\<forall>i < length (asd_list (g_xdev w)).
        (\<exists>ret. xvip_entity_start_stop drv (subdevs w) (asd_list (g_xdev w) ! i) True (trs ! i) =
                  Inr (ret, ents' ! i, trs ! Suc i)) \<and>
        (\<forall>p. entity (asd_list (g_xdev w) ! i) = Some p \<and> \<not> streaming (asd_list (g_xdev w) ! i) \<longrightarrow>
           (\<exists>more. trs ! Suc i = trs ! i @ S_power p 1 # more)))"
proof -
  let ?ents = "asd_list (g_xdev w)"
  from start_stream_loop_in_order [of drv "subdevs w" ?ents "sd_calls w"]
  obtain ents' trs where
    run: "xvip_start_stream_loop drv (subdevs w) ?ents (sd_calls w) = Inr (ents', trs ! length ?ents)"
    and len: "length ents' = length ?ents" "length trs = Suc (length ?ents)"
    and first: "trs ! 0 = sd_calls w"
    and walk: "\<forall>i < length ?ents. \<exists>ret.
                 xvip_entity_start_stop drv (subdevs w) (?ents ! i) True (trs ! i) =
                   Inr (ret, ents' ! i, trs ! Suc i)"
    by blast
  have power: "\<forall>i < length ?ents. \<forall>p. entity (?ents ! i) = Some p \<and> \<not> streaming (?ents ! i) \<longrightarrow>
                 (\<exists>more. trs ! Suc i = trs ! i @ S_power p 1 # more)"
  proof (intro allI impI)
    fix i p
    assume i: "i < length ?ents"
      and idle: "entity (?ents ! i) = Some p \<and> \<not> streaming (?ents ! i)"
    from walk i obtain ret where
      "xvip_entity_start_stop drv (subdevs w) (?ents ! i) True (trs ! i) =
         Inr (ret, ents' ! i, trs ! Suc i)"
      by blast
    with idle show "\<exists>more. trs ! Suc i = trs ! i @ S_power p 1 # more"
      by (blast intro: start_stop_powers_on)
  qed
  have "xvip_start_stream drv w =
          Inr (w\<lparr>g_xdev := (g_xdev w)\<lparr>asd_list := ents', is_streaming := True\<rparr>,
                 sd_calls := trs ! length ?ents\<rparr>)"
    using run by (simp add: xvip_start_stream_def)
  with len first walk power show ?thesis by blast
qed

theorem start_stream_walks_list_in_order_witness:
  "\<exists>ents' trs.
     xvip_start_stream (failing_call (S_stream 3 1) (- EIO))
       (board_world board_subdevs
          [bound_entity 13 3 False, unbound_entity 11, bound_entity 12 2 False]) =
       Inr ((board_world board_subdevs
               [bound_entity 13 3 False, unbound_entity 11, bound_entity 12 2 False])
            \<lparr>g_xdev := (board_xdev [bound_entity 13 3 False, unbound_entity 11,
                                    bound_entity 12 2 False])
                         \<lparr>asd_list := ents', is_streaming := True\<rparr>,
              sd_calls := trs ! 3\<rparr>) \<and>
     trs ! 0 = [] \<and>
     (\<exists>more. trs ! 1 = trs ! 0 @ S_power 3 1 # more) \<and>
     (\<exists>ret. xvip_entity_start_stop (failing_call (S_stream 3 1) (- EIO)) board_subdevs
              (unbound_entity 11) True (trs ! 1) = Inr (ret, ents' ! 1, trs ! 2)) \<and>
     (\<exists>more. trs ! 3 = trs ! 2 @ S_power 2 1 # more)"
proof -
  let ?drv = "failing_call (S_stream 3 1) (- EIO)"
  let ?ents = "[bound_entity 13 3 False, unbound_entity 11, bound_entity 12 2 False]"
  let ?w = "board_world board_subdevs ?ents"
  have ents: "asd_list (g_xdev ?w) = ?ents" and xdev: "g_xdev ?w = board_xdev ?ents"
    and calls: "sd_calls ?w = []" and sds: "subdevs ?w = board_subdevs"
    by (simp_all add: board_world_def board_xdev_def)
  from start_stream_walks_list_in_order [of ?drv ?w]
  obtain ents' trs where
    run: "xvip_start_stream ?drv ?w =
            Inr (?w\<lparr>g_xdev := (g_xdev ?w)\<lparr>asd_list := ents', is_streaming := True\<rparr>,
                    sd_calls := trs ! length (asd_list (g_xdev ?w))\<rparr>)"
    and first: "trs ! 0 = sd_calls ?w"
    and walk: "\<forall>i < length (asd_list (g_xdev ?w)).
        (\<exists>ret. xvip_entity_start_stop ?drv (subdevs ?w) (asd_list (g_xdev ?w) ! i) True (trs ! i) =
                  Inr (ret, ents' ! i, trs ! Suc i)) \<and>
        (\<forall>p. entity (asd_list (g_xdev ?w) ! i) = Some p \<and>
              \<not> streaming (asd_list (g_xdev ?w) ! i) \<longrightarrow>
           (\<exists>more. trs ! Suc i = trs ! i @ S_power p 1 # more))"
    by blast
  have walk': "\<forall>i < length ?ents.
        (\<exists>ret. xvip_entity_start_stop ?drv board_subdevs (?ents ! i) True (trs ! i) =
                  Inr (ret, ents' ! i, trs ! Suc i)) \<and>
        (\<forall>p. entity (?ents ! i) = Some p \<and> \<not> streaming (?ents ! i) \<longrightarrow>
           (\<exists>more. trs ! Suc i = trs ! i @ S_power p 1 # more))"
    using walk by (simp only: ents sds)
  have e0: "entity (bound_entity 13 3 False) = Some 3 \<and> \<not> streaming (bound_entity 13 3 False)"
    and e2: "entity (bound_entity 12 2 False) = Some 2 \<and> \<not> streaming (bound_entity 12 2 False)"
    by (simp_all add: bound_entity_def)
  from walk' [rule_format, of 0] e0
  have t0: "\<exists>more. trs ! 1 = trs ! 0 @ S_power 3 1 # more"
    by simp
  from walk' [rule_format, of 1]
  have t1: "\<exists>ret. xvip_entity_start_stop ?drv board_subdevs (unbound_entity 11) True (trs ! 1) =
                   Inr (ret, ents' ! 1, trs ! 2)"
    by (simp add: eval_nat_numeral)
  from walk' [rule_format, of 2] e2
  have t2: "\<exists>more. trs ! 3 = trs ! 2 @ S_power 2 1 # more"
    by (simp add: eval_nat_numeral)
  have len3: "length (asd_list (board_xdev ?ents)) = 3"
    by (simp add: board_xdev_def)
  from run have run': "xvip_start_stream ?drv ?w =
      Inr (?w\<lparr>g_xdev := (board_xdev ?ents)\<lparr>asd_list := ents', is_streaming := True\<rparr>,
              sd_calls := trs ! 3\<rparr>)"
    by (simp only: xdev len3)
  from first have first': "trs ! 0 = []"
    by (simp only: calls)
  from run' first' t0 t1 t2 show ?thesis
    by (intro exI [of _ ents'] exI [of _ trs] conjI)
qed

text \<open>
  C10: a write to \<^verbatim>\<open>stream_start\<close> returns the count it was given and leaves
  \<^verbatim>\<open>is_streaming\<close> set, whatever the list holds (bound entities or not) and whatever the
  sub-devices answer to the calls, so that reading the attribute afterwards prints 1.
\<close>

theorem store_sets_is_streaming:
  "\<exists>w'. xvip_start_stream_store drv count w = Inr (count, w') \<and>
        is_streaming (g_xdev w') \<and>
        xvip_start_stream_show w' = (''1'' @ [CHR 0x0A], 2)"
proof -
  from start_stream_loop_in_order [of drv "subdevs w" "asd_list (g_xdev w)" "sd_calls w"]
  obtain ents' tr' where
    "xvip_start_stream_loop drv (subdevs w) (asd_list (g_xdev w)) (sd_calls w) = Inr (ents', tr')"
    by blast
  then show ?thesis
    by (simp add: start_stream_defs)
qed

theorem store_sets_is_streaming_witness:
  "\<exists>w'. xvip_start_stream_store (\<lambda>tr c. - EIO) 2
          (board_world board_subdevs
             [unbound_entity 13, bound_entity 11 1 False, unbound_entity 12]) =
          Inr (2, w') \<and>
        is_streaming (g_xdev w') \<and>
        xvip_start_stream_show w' = (''1'' @ [CHR 0x0A], 2)"
  using store_sets_is_streaming
    [of "\<lambda>tr c. - EIO" 2
       "board_world board_subdevs [unbound_entity 13, bound_entity 11 1 False, unbound_entity 12]"]
  by simp

text \<open>
  The same write on the board before any sub-device is bound: every power-on is answered
  \<open>- ENODEV\<close>, nothing is called, no entity is streaming, and the flag is set.
\<close>

lemma store_before_binding:
  "xvip_start_stream_store (\<lambda>tr c. 0) 2
     (board_world board_subdevs [unbound_entity 13, unbound_entity 11, unbound_entity 12]) =
   Inr (2, (board_world board_subdevs [unbound_entity 13, unbound_entity 11, unbound_entity 12])
             \<lparr>g_xdev := (board_xdev [unbound_entity 13, unbound_entity 11, unbound_entity 12])
                          \<lparr>is_streaming := True\<rparr>\<rparr>)"
  by (simp add: start_stop_defs start_stream_defs board_defs errno_defs)

subsection \<open>Binding\<close>

lemma notify_bound_loop_no_match:
  "\<forall>ent \<in> set ents. match_fwnode ent \<noteq> fw \<Longrightarrow>
     xvip_graph_notify_bound_loop fw sd ents = (- EINVAL, ents)"
  by (induction ents) auto

lemma notify_bound_loop_duplicate:
  "distinct (map match_fwnode ents) \<Longrightarrow> ent \<in> set ents \<Longrightarrow> match_fwnode ent = fw \<Longrightarrow>
     subdev ent \<noteq> None \<Longrightarrow> xvip_graph_notify_bound_loop fw sd ents = (- EINVAL, ents)"
proof (induction ents)
  case Nil
  then show ?case by simp
next
  case (Cons a rest)
  show ?case
  proof (cases "match_fwnode a = fw")
    case True
    with Cons.prems have "a = ent" by (auto simp: image_iff)
    with Cons.prems True show ?thesis by simp
  next
    case False
    with Cons.prems have "ent \<in> set rest" by auto
    with Cons False show ?thesis by simp
  qed
qed

text \<open>
  C6: in a list whose entities have distinct firmware nodes, a sub-device whose firmware
  node is that of an entity which already has a sub-device is refused with \<open>- EINVAL\<close>, and
  so is a sub-device whose firmware node is that of no entity; in both cases nothing
  changes, neither the entity and sub-device pointers of any entity nor anything else.
\<close>

theorem notify_bound_rejects:
  assumes "distinct (map match_fwnode (asd_list (g_xdev w)))"
  shows "((\<exists>ent \<in> set (asd_list (g_xdev w)).
             match_fwnode ent = sd_fwnode (subdevs w sd) \<and> subdev ent \<noteq> None) \<longrightarrow>
          xvip_graph_notify_bound sd w = (- EINVAL, w)) \<and>
         ((\<forall>ent \<in> set (asd_list (g_xdev w)). match_fwnode ent \<noteq> sd_fwnode (subdevs w sd)) \<longrightarrow>
          xvip_graph_notify_bound sd w = (- EINVAL, w))"
  using assms
  by (auto simp: xvip_graph_notify_bound_def notify_bound_loop_no_match
      notify_bound_loop_duplicate)

theorem notify_bound_rejects_witness:
  "distinct (map match_fwnode (asd_list (g_xdev (board_world board_subdevs
      [bound_entity 11 1 False, unbound_entity 12])))) \<and>
   xvip_graph_notify_bound 1 (board_world board_subdevs [bound_entity 11 1 False, unbound_entity 12]) =
     (- EINVAL, board_world board_subdevs [bound_entity 11 1 False, unbound_entity 12]) \<and>
   xvip_graph_notify_bound 3 (board_world board_subdevs [bound_entity 11 1 False, unbound_entity 12]) =
     (- EINVAL, board_world board_subdevs [bound_entity 11 1 False, unbound_entity 12])"
proof -
  let ?w = "board_world board_subdevs [bound_entity 11 1 False, unbound_entity 12]"
  have d: "distinct (map match_fwnode (asd_list (g_xdev ?w)))"
    by (simp add: board_defs)
  have dup: "\<exists>ent \<in> set (asd_list (g_xdev ?w)).
               match_fwnode ent = sd_fwnode (subdevs ?w 1) \<and> subdev ent \<noteq> None"
    by (simp add: board_defs)
  have none: "\<forall>ent \<in> set (asd_list (g_xdev ?w)). match_fwnode ent \<noteq> sd_fwnode (subdevs ?w 3)"
    by (simp add: board_defs)
  show ?thesis
    using d dup none notify_bound_rejects [OF d, of 1] notify_bound_rejects [OF d, of 3]
    by blast
qed

subsection \<open>Parsing\<close>

text \<open>On the board as it is, parsing finds the receiver and then the two sensors.\<close>

lemma graph_parse_board:
  "xvip_graph_parse (board_platform board_endpoints) (board_xdev []) =
     Some (0, board_xdev [unbound_entity 13, unbound_entity 11, unbound_entity 12])"
  by (simp add: parse_defs board_defs errno_defs xvip_graph_parse_loop.simps)

lemma parse_one_loop_failure:
  "xvip_graph_parse_one_loop p xdev eps = (ret, xdev') \<Longrightarrow> ret < 0 \<Longrightarrow> asd_list xdev' = []"
  by (induction eps arbitrary: xdev)
     (auto simp: v4l2_async_notifier_cleanup_def split: option.splits if_splits sum.splits)

text \<open>
  Whenever parsing the composite device's own node fails, \<^verbatim>\<open>xvip_graph_parse\<close> returns 0
  and so does \<^verbatim>\<open>xvip_graph_init\<close>, which finds the list empty.
\<close>

lemma graph_init_hides_root_failure:
  assumes "xvip_graph_parse_one p xdev (of_node xdev) = (ret, xdev')" and "ret < 0"
  shows "xvip_graph_parse p xdev = Some (0, xdev') \<and> xvip_graph_init p xdev = Some (0, xdev')"
  using assms parse_one_loop_failure [of p xdev "endpoints p (of_node xdev)" ret xdev']
  by (simp add: xvip_graph_init_def xvip_graph_parse_def xvip_graph_init_done_def
      xvip_graph_parse_one_def)

text \<open>
  An endpoint that leads nowhere on a node found while parsing (here the first sensor) is
  reported: the list is emptied and \<open>- EINVAL\<close> comes back from both functions.
\<close>

lemma graph_parse_reports_sensor_failure:
  "xvip_graph_parse (board_platform broken_sensor_endpoints) (board_xdev []) =
     Some (- EINVAL, board_xdev []) \<and>
   xvip_graph_init (board_platform broken_sensor_endpoints) (board_xdev []) =
     Some (- EINVAL, board_xdev [])"
  by (simp add: parse_defs board_defs errno_defs xvip_graph_parse_loop.simps)

text \<open>
  C3: an endpoint whose remote parent cannot be resolved should abort the build, discard
  the list and be reported to \<^verbatim>\<open>xvip_graph_init\<close> as an error. With such an endpoint on the
  composite device's own node, after one that resolves, \<^verbatim>\<open>xvip_graph_parse_one\<close> empties the
  list and returns \<open>- EINVAL\<close>, but \<^verbatim>\<open>xvip_graph_parse\<close> returns 0 for it, and
  \<^verbatim>\<open>xvip_graph_init\<close> returns 0 as well.
\<close>

theorem graph_parse_hides_root_failure:
  "xvip_graph_parse_one (board_platform broken_root_endpoints) (board_xdev []) 10 =
     (- EINVAL, board_xdev []) \<and>
   xvip_graph_parse (board_platform broken_root_endpoints) (board_xdev []) =
     Some (0, board_xdev []) \<and>
   xvip_graph_init (board_platform broken_root_endpoints) (board_xdev []) =
     Some (0, board_xdev [])"
  by (simp add: parse_defs board_defs errno_defs)

subsection \<open>Link creation\<close>















lemma build_one_heap:
  "xvip_graph_build_one p ent w = Inr (ret, w') \<Longrightarrow>
     \<exists>a. entity ent = Some a \<and>
       subdevs w' = subdevs (xvip_graph_build_one_rename a w) \<and>
       indication w' = indication (xvip_graph_build_one_rename a w)"
  by (auto simp: xvip_graph_build_one_def Let_def split: option.splits sum.splits)

lemma rename_other:
  "entity_name w a \<noteq> ''IMX274'' \<Longrightarrow> xvip_graph_build_one_rename a w = w"
  by (simp add: xvip_graph_build_one_rename_def entity_name_def Let_def)

lemma rename_imx:
  "entity_name w a = ''IMX274'' \<Longrightarrow>
     entity_name (xvip_graph_build_one_rename a w) a =
       (if indication w = 0 then ''IMX274_0'' else ''IMX274_1'') \<and>
     indication (xvip_graph_build_one_rename a w) = indication w + 1 \<and>
     (\<forall>c. c \<noteq> a \<longrightarrow> subdevs (xvip_graph_build_one_rename a w) c = subdevs w c)"
  by (simp add: xvip_graph_build_one_rename_def entity_name_def Let_def)

lemma notify_complete_loop_keeps_names:
  "xvip_graph_notify_complete_loop p ents w = Inr (r, w') \<Longrightarrow>
     \<forall>ent \<in> set ents. \<forall>a. entity ent = Some a \<longrightarrow> entity_name w a \<noteq> ''IMX274'' \<Longrightarrow>
     subdevs w' = subdevs w \<and> indication w' = indication w"
proof (induction ents arbitrary: w)
  case Nil
  then show ?case by simp
next
  case (Cons ent rest)
  from Cons.prems(1) obtain ret w1 where
    step: "xvip_graph_build_one p ent w = Inr (ret, w1)"
    by (auto split: sum.splits)
  from build_one_heap [OF step] Cons.prems(2)
  have same: "subdevs w1 = subdevs w \<and> indication w1 = indication w"
    by (auto simp: rename_other)
  show ?case
  proof (cases "ret < 0")
    case True
    with Cons.prems(1) step same show ?thesis by simp
  next
    case False
    with Cons.prems(1) step
    have tail: "xvip_graph_notify_complete_loop p rest w1 = Inr (r, w')" by simp
    from Cons.prems(2) same
    have "\<forall>e \<in> set rest. \<forall>a. entity e = Some a \<longrightarrow> entity_name w1 a \<noteq> ''IMX274''"
      by (simp add: entity_name_def)
    from Cons.IH [OF tail this] same show ?thesis by simp
  qed
qed

lemma notify_complete_loop_append:
  "xvip_graph_notify_complete_loop p (xs @ ys) w = Inr (None, w') \<Longrightarrow>
     \<exists>w1. xvip_graph_notify_complete_loop p xs w = Inr (None, w1) \<and>
          xvip_graph_notify_complete_loop p ys w1 = Inr (None, w')"
proof (induction xs arbitrary: w)
  case Nil
  then show ?case by simp
next
  case (Cons x xs)
  then show ?case
    by (auto split: sum.splits if_splits)
qed

lemma notify_complete_loop_one:
  "xvip_graph_notify_complete_loop p (ent # rest) w = Inr (None, w') \<Longrightarrow>
     \<exists>ret w1. xvip_graph_build_one p ent w = Inr (ret, w1) \<and>
        xvip_graph_notify_complete_loop p rest w1 = Inr (None, w')"
  by (auto split: sum.splits if_splits)

text \<open>
  C8, as stated: entities that share a name should each get a suffix of their own when the
  links are created. On the second board, whose two sensors are both named OV5640, link
  creation succeeds and changes no sub-device: both entities are still named OV5640.
\<close>

theorem same_names_stay_equal:
  "xvip_graph_notify_complete (board_platform (\<lambda>fw. []))
     (board_world twin_subdevs [bound_entity 11 1 False, bound_entity 12 2 False]) =
   Inr (0, \<lparr>g_xdev = (board_xdev [bound_entity 11 1 False, bound_entity 12 2 False])
                       \<lparr>subdev_nodes_registered := True, media_dev_registered := True\<rparr>,
            indication = 0, subdevs = twin_subdevs, sd_calls = []\<rparr>) \<and>
   me_name (sd_entity (twin_subdevs 1)) = ''OV5640'' \<and>
   me_name (sd_entity (twin_subdevs 2)) = ''OV5640''"
  by (simp add: build_defs board_defs)

text \<open>
  C8, amended: link creation renames only entities named IMX274. When two entities of the
  list carry that name, bound to different sub-devices, no other entity of the list does or
  shares their sub-devices, the counter \<^verbatim>\<open>indication\<close> is 0 and the loop over the list runs to
  its end, the one that comes first in the list is named IMX274_0 afterwards and the other
  one IMX274_1, and every other media entity keeps its name.
\<close>

theorem two_imx274_renamed_in_order:
  assumes run: "xvip_graph_notify_complete_loop p (pre @ ea # mid @ eb # post) w = Inr (None, w')"
    and ea: "entity ea = Some a" and eb: "entity eb = Some b" and ab: "a \<noteq> b"
    and names: "entity_name w a = ''IMX274''" "entity_name w b = ''IMX274''"
    and others: "\<forall>ent \<in> set (pre @ mid @ post). \<forall>c. entity ent = Some c \<longrightarrow>
                   c \<noteq> a \<and> c \<noteq> b \<and> entity_name w c \<noteq> ''IMX274''"
    and first: "indication w = 0"
  shows "entity_name w' a = ''IMX274_0'' \<and> entity_name w' b = ''IMX274_1'' \<and>
         (\<forall>c. c \<noteq> a \<and> c \<noteq> b \<longrightarrow> entity_name w' c = entity_name w c)"
proof -
  have oth: "\<And>ent c. ent \<in> set pre \<union> set mid \<union> set post \<Longrightarrow> entity ent = Some c \<Longrightarrow>
               c \<noteq> a \<and> c \<noteq> b \<and> entity_name w c \<noteq> ''IMX274''"
    using others by auto
  from notify_complete_loop_append [OF run] obtain w1 where
    r1: "xvip_graph_notify_complete_loop p pre w = Inr (None, w1)" and
    r2: "xvip_graph_notify_complete_loop p (ea # mid @ eb # post) w1 = Inr (None, w')"
    by blast
  have "\<forall>ent \<in> set pre. \<forall>c. entity ent = Some c \<longrightarrow> entity_name w c \<noteq> ''IMX274''"
    using oth by blast
  from notify_complete_loop_keeps_names [OF r1 this]
  have s1: "subdevs w1 = subdevs w" "indication w1 = indication w" by auto
  from notify_complete_loop_one [OF r2] obtain ret2 w2 where
    b2: "xvip_graph_build_one p ea w1 = Inr (ret2, w2)" and
    r3: "xvip_graph_notify_complete_loop p (mid @ eb # post) w2 = Inr (None, w')"
    by blast
  have n1: "entity_name w1 a = ''IMX274''"
    using names s1 by (simp add: entity_name_def)
  from build_one_heap [OF b2] ea rename_imx [OF n1] first s1
  have s2: "entity_name w2 a = ''IMX274_0''" "indication w2 = 1"
    "\<forall>c. c \<noteq> a \<longrightarrow> subdevs w2 c = subdevs w c"
    by (auto simp: entity_name_def)
  from notify_complete_loop_append [OF r3] obtain w3 where
    r4: "xvip_graph_notify_complete_loop p mid w2 = Inr (None, w3)" and
    r5: "xvip_graph_notify_complete_loop p (eb # post) w3 = Inr (None, w')"
    by blast
  have "\<forall>ent \<in> set mid. \<forall>c. entity ent = Some c \<longrightarrow> entity_name w2 c \<noteq> ''IMX274''"
  proof (intro ballI allI impI)
    fix ent c
    assume "ent \<in> set mid" "entity ent = Some c"
    with oth [of ent c] have "c \<noteq> a" "entity_name w c \<noteq> ''IMX274''" by auto
    with s2(3) show "entity_name w2 c \<noteq> ''IMX274''" by (simp add: entity_name_def)
  qed
  from notify_complete_loop_keeps_names [OF r4 this]
  have s3: "subdevs w3 = subdevs w2" "indication w3 = indication w2" by auto
  from notify_complete_loop_one [OF r5] obtain ret4 w4 where
    b4: "xvip_graph_build_one p eb w3 = Inr (ret4, w4)" and
    r6: "xvip_graph_notify_complete_loop p post w4 = Inr (None, w')"
    by blast
  have n3: "entity_name w3 b = ''IMX274''"
    using names ab s2(3) s3 by (simp add: entity_name_def)
  from build_one_heap [OF b4] eb rename_imx [OF n3] s3 s2 ab
  have s4: "entity_name w4 b = ''IMX274_1''" "entity_name w4 a = ''IMX274_0''"
    "\<forall>c. c \<noteq> a \<and> c \<noteq> b \<longrightarrow> subdevs w4 c = subdevs w c"
    by (auto simp: entity_name_def)
  have "\<forall>ent \<in> set post. \<forall>c. entity ent = Some c \<longrightarrow> entity_name w4 c \<noteq> ''IMX274''"
  proof (intro ballI allI impI)
    fix ent c
    assume "ent \<in> set post" "entity ent = Some c"
    with oth [of ent c] have "c \<noteq> a \<and> c \<noteq> b" "entity_name w c \<noteq> ''IMX274''" by auto
    with s4(3) show "entity_name w4 c \<noteq> ''IMX274''" by (simp add: entity_name_def)
  qed
  from notify_complete_loop_keeps_names [OF r6 this]
  have s5: "subdevs w' = subdevs w4" by simp
  with s4 show ?thesis by (simp add: entity_name_def)
qed

theorem two_imx274_renamed_in_order_witness:
  "\<exists>w'. xvip_graph_notify_complete_loop (board_platform board_endpoints)
           [bound_entity 13 3 False, bound_entity 11 1 False, bound_entity 12 2 False]
           (board_world board_subdevs
              [bound_entity 13 3 False, bound_entity 11 1 False, bound_entity 12 2 False]) =
         Inr (None, w') \<and>
       entity_name w' 1 = ''IMX274_0'' \<and> entity_name w' 2 = ''IMX274_1'' \<and>
       entity_name w' 3 = ''csi2rx''"
proof -
  let ?p = "board_platform board_endpoints"
  let ?w = "board_world board_subdevs
              [bound_entity 13 3 False, bound_entity 11 1 False, bound_entity 12 2 False]"
  have "\<exists>w'. xvip_graph_notify_complete_loop ?p
               ([bound_entity 13 3 False] @ bound_entity 11 1 False # [] @
                  bound_entity 12 2 False # []) ?w = Inr (None, w')"
    by (simp add: build_defs board_defs errno_defs)
  then obtain w' where
    run: "xvip_graph_notify_complete_loop ?p
            ([bound_entity 13 3 False] @ bound_entity 11 1 False # [] @
               bound_entity 12 2 False # []) ?w = Inr (None, w')"
    by blast
  have ea: "entity (bound_entity 11 1 False) = Some 1"
    and eb: "entity (bound_entity 12 2 False) = Some 2"
    by (simp_all add: bound_entity_def)
  have ab: "(1::nat) \<noteq> 2" by simp
  have names: "entity_name ?w 1 = ''IMX274''" "entity_name ?w 2 = ''IMX274''"
    by (simp_all add: entity_name_def board_defs)
  have others: "\<forall>ent \<in> set ([bound_entity 13 3 False] @ [] @ []). \<forall>c. entity ent = Some c \<longrightarrow>
                  c \<noteq> 1 \<and> c \<noteq> 2 \<and> entity_name ?w c \<noteq> ''IMX274''"
    by (simp add: entity_name_def board_defs)
  have first: "indication ?w = 0"
    by (simp add: board_world_def)
  have third: "entity_name ?w 3 = ''csi2rx''"
    by (simp add: entity_name_def board_defs)
  from two_imx274_renamed_in_order [OF run ea eb ab names others first] third
  have "entity_name w' 1 = ''IMX274_0'' \<and> entity_name w' 2 = ''IMX274_1'' \<and>
        entity_name w' 3 = ''csi2rx''"
    by simp
  with run show ?thesis by auto
qed

end
